theory Spec2Isabelle
  imports Complex_Main
begin

section \<open>JavaScript strings\<close>

text \<open>
  A JavaScript string is a sequence of UTF-16 code units. A code unit is modelled as a
  natural number (below 65536 for a well-formed string; no operation below does
  arithmetic that could leave that range). ASCII literals of the source are written with
  \<open>str\<close>; code units outside ASCII (the bullet, the emoji of the bot messages) are
  written as numbers.
\<close>

type_synonym jsstring = "nat list"

definition str :: "string \<Rightarrow> jsstring" where
  "str s = map of_char s"

text \<open>
  \<open>String.prototype.toLowerCase\<close> is a function of the JavaScript engine: its Unicode
  case table (with the mappings that change the length of a text or depend on the context)
  is not part of the repository. The definitions below that call it take it as a
  parameter, named \<open>toLowerCase\<close>, and the theorems about them hold for every such
  function, the engine's own one included.
\<close>

type_synonym lowercasing = "jsstring \<Rightarrow> jsstring"

text \<open>\<open>String.prototype.startsWith(p)\<close>: \<open>p\<close> is a prefix of the string.\<close>

fun startsWith :: "jsstring \<Rightarrow> jsstring \<Rightarrow> bool" where
  "startsWith s [] = True"
| "startsWith [] (p # ps) = False"
| "startsWith (c # cs) (p # ps) = (c = p \<and> startsWith cs ps)"

text \<open>
  \<open>String.prototype.includes(p)\<close>: \<open>p\<close> occurs as a contiguous substring
  (the empty string occurs in every string).
\<close>

fun includes_str :: "jsstring \<Rightarrow> jsstring \<Rightarrow> bool" where
  "includes_str [] p = (p = [])"
| "includes_str (c # cs) p = (startsWith (c # cs) p \<or> includes_str cs p)"

text \<open>
  The white space and line terminator code units that \<open>String.prototype.trim\<close>
  strips (ECMAScript WhiteSpace and LineTerminator).
\<close>

definition isWhiteSpace :: "nat \<Rightarrow> bool" where
  "isWhiteSpace c =
     (c \<in> {9, 10, 11, 12, 13, 32, 160, 5760, 8232, 8233, 8239, 8287, 12288, 65279}
      \<or> (8192 \<le> c \<and> c \<le> 8202))"

definition trim :: "jsstring \<Rightarrow> jsstring" where
  "trim s = rev (dropWhile isWhiteSpace (rev (dropWhile isWhiteSpace s)))"

section \<open>Query dispatch of the chat interface\<close>

text \<open>
  \<open>ChatInterface.handleSubmit\<close> chooses the backend path of a query by substring
  tests on the lower-cased query text, in this order: image-based product search,
  text-based product recommendation, general conversation.
\<close>

datatype intent = ImageSearch | TextRecommendation | GeneralConversation

text \<open>The condition of the first \<open>if\<close>, on \<open>queryLower\<close>.\<close>

definition isImageQuery :: "jsstring \<Rightarrow> bool" where
  "isImageQuery queryLower =
     (includes_str queryLower (str ''image'') \<or>
      includes_str queryLower (str ''picture'') \<or>
      includes_str queryLower (str ''photo'') \<or>
      includes_str queryLower (str ''looks like'') \<or>
      startsWith queryLower (str ''a ''))"

text \<open>The condition of the \<open>else if\<close>, on \<open>queryLower\<close>.\<close>

definition isTextQuery :: "jsstring \<Rightarrow> bool" where
  "isTextQuery queryLower =
     (includes_str queryLower (str ''recommend'') \<or>
      includes_str queryLower (str ''search'') \<or>
      includes_str queryLower (str ''find'') \<or>
      includes_str queryLower (str ''show me'') \<or>
      includes_str queryLower (str ''looking for''))"

text \<open>
  The \<open>if\<close>, \<open>else if\<close>, \<open>else\<close> chain of \<open>handleSubmit\<close> as a function
  of the query text.
\<close>

definition classify :: "lowercasing \<Rightarrow> jsstring \<Rightarrow> intent" where
  "classify toLowerCase query =
     (let queryLower = toLowerCase query in
      if isImageQuery queryLower then ImageSearch
      else if isTextQuery queryLower then TextRecommendation
      else GeneralConversation)"

section \<open>Cleaning up the agent's Markdown\<close>

text \<open>
  The values a field of a JSON response can hold, as far as the code tells them apart:
  \<open>undefined\<close> (the field is absent), \<open>null\<close>, booleans, numbers (integers here),
  strings, and objects or arrays (\<open>JObject\<close>).
\<close>

datatype jsval = JUndefined | JNull | JBool bool | JNum int | JStr jsstring | JObject

datatype error = RequestFailed | TypeError

text \<open>JavaScript truthiness, as \<open>!text\<close> tests it.\<close>

fun truthy :: "jsval \<Rightarrow> bool" where
  "truthy JUndefined = False"
| "truthy JNull = False"
| "truthy (JBool b) = b"
| "truthy (JNum n) = (n \<noteq> 0)"
| "truthy (JStr s) = (s \<noteq> [])"
| "truthy JObject = True"

text \<open>
  With the \<open>m\<close> flag, \<open>^\<close> matches at the start of the input and right after a
  line terminator.
\<close>

definition isLineTerminator :: "nat \<Rightarrow> bool" where
  "isLineTerminator c = (c \<in> {10, 13, 8232, 8233})"

text \<open>
  \<open>text.replace(/^\* /gm, '\<bullet> ')\<close>: scanning from the left, an asterisk (42)
  followed by a space (32) at the start of a line becomes a bullet (U+2022) and a space.
  The flag says whether the current position is the start of a line.
\<close>

fun replaceLeadingStars :: "bool \<Rightarrow> jsstring \<Rightarrow> jsstring" where
  "replaceLeadingStars atStart (c # d # cs) =
     (if atStart \<and> c = 42 \<and> d = 32 then 8226 # 32 # replaceLeadingStars False cs
      else c # replaceLeadingStars (isLineTerminator c) (d # cs))"
| "replaceLeadingStars atStart cs = cs"

text \<open>\<open>formatted.replace(/\*/g, '')\<close>\<close>

definition removeAsterisks :: "jsstring \<Rightarrow> jsstring" where
  "removeAsterisks s = filter (\<lambda>c. c \<noteq> 42) s"

text \<open>\<open>formatted.replace(/\n\n/g, '<br/><br/>')\<close>: pairs of newlines, from the left.\<close>

fun replaceDoubleNewlines :: "jsstring \<Rightarrow> jsstring" where
  "replaceDoubleNewlines (c # d # cs) =
     (if c = 10 \<and> d = 10 then str ''<br/><br/>'' @ replaceDoubleNewlines cs
      else c # replaceDoubleNewlines (d # cs))"
| "replaceDoubleNewlines cs = cs"

text \<open>\<open>formatted.replace(/\n/g, '<br/>')\<close>\<close>

definition replaceNewlines :: "jsstring \<Rightarrow> jsstring" where
  "replaceNewlines s = concat (map (\<lambda>c. if c = 10 then str ''<br/>'' else [c]) s)"

text \<open>
  \<open>formatGeminiResponse(text)\<close>. A falsy argument gives the empty string. A truthy
  argument that is not a string has no \<open>replace\<close> method: the call raises a TypeError.
\<close>

definition formatGeminiResponse :: "jsval \<Rightarrow> error + jsstring" where
  "formatGeminiResponse text =
     (if \<not> truthy text then Inr []
      else (case text of
              JStr s \<Rightarrow>
                Inr (replaceNewlines (replaceDoubleNewlines
                       (removeAsterisks (replaceLeadingStars True s))))
            | _ \<Rightarrow> Inl TypeError))"

section \<open>The chat interface and its submit handler\<close>

text \<open>
  A product as the backend serialises it. The handler only stores the list and counts it.
\<close>

record product =
  product_id :: nat
  name :: jsstring
  description :: jsstring
  price :: real
  category :: jsstring
  brand :: jsstring
  image_url :: jsstring
  tags :: "jsstring list"

datatype sender = User | Bot

text \<open>
  A chat message. The \<open>timestamp\<close> field (the wall clock at creation) is left out.
  The text of a bot message of the general conversation path is the response field as it
  arrived, so it is a \<open>jsval\<close>.
\<close>

record chat_message =
  msg_type :: sender
  message :: jsval

datatype feature = Agent | Image | Text | Chat

text \<open>
  The \<open>apiStatus\<close> that \<open>App\<close> passes down: \<open>'checking'\<close>,
  \<open>'connected'\<close> or \<open>'error'\<close> (\<open>Disconnected\<close> here).
\<close>

datatype api_status = Checking | Connected | Disconnected

text \<open>The React state of \<open>ChatInterface\<close> that \<open>handleSubmit\<close> reads or writes.\<close>

record chat_state =
  query :: jsstring
  messages :: "chat_message list"
  products :: "product list"
  isLoading :: bool
  lastFeature :: "feature option"
  showProducts :: bool
  agentMode :: bool

text \<open>
  The backend is outside the component. A request names its endpoint and carries the query
  text (as field \<open>description\<close> for the image search, \<open>query\<close> otherwise). The
  answer is a rejected promise (\<open>Inl\<close>; a response without \<open>data\<close> raises at the
  first field access, before any setter, and counts as one) or the \<open>data\<close> of the
  response: its \<open>products\<close> field (\<open>None\<close> when absent or null) and its
  \<open>response\<close> field.
\<close>

datatype endpoint = ApiAgentChat | ApiImageSearch | ApiRecommend | ApiChat

type_synonym request = "endpoint \<times> jsstring"

record response_data =
  data_products :: "product list option"
  data_response :: jsval

type_synonym backend = "request \<Rightarrow> error + response_data"

text \<open>\<open>response.data.products || []\<close>\<close>

definition productsOrEmpty :: "response_data \<Rightarrow> product list" where
  "productsOrEmpty d = (case data_products d of None \<Rightarrow> [] | Some ps \<Rightarrow> ps)"

text \<open>\<open>response.data.products && response.data.products.length > 0\<close>\<close>

definition hasProducts :: "response_data \<Rightarrow> bool" where
  "hasProducts d = (case data_products d of None \<Rightarrow> False | Some ps \<Rightarrow> 0 < length ps)"

text \<open>The decimal digits of a number, as a template literal prints a length.\<close>

fun decimal :: "nat \<Rightarrow> jsstring" where
  "decimal n = (if n < 10 then [48 + n] else decimal (n div 10) @ [48 + n mod 10])"

declare decimal.simps [simp del]

definition userMessage :: "jsstring \<Rightarrow> chat_message" where
  "userMessage q = \<lparr>msg_type = User, message = JStr q\<rparr>"

definition botMessage :: "jsval \<Rightarrow> chat_message" where
  "botMessage m = \<lparr>msg_type = Bot, message = m\<rparr>"

definition errorMessage :: chat_message where
  "errorMessage = botMessage (JStr (str
     ''I'm sorry, I'm having trouble connecting to my services right now. Please try again in a moment.''))"

text \<open>
  The texts of the bot messages. The emoji are surrogate pairs: the robot U+1F916, the
  shopping cart U+1F6D2, the framed picture U+1F5BC with the variation selector U+FE0F,
  the memo U+1F4DD.
\<close>

definition agentText :: "jsstring \<Rightarrow> response_data \<Rightarrow> jsstring" where
  "agentText formatted d =
     str ''<b>'' @ [55358, 56598] @ str '' Agent Mode:</b> '' @ formatted @
     (if hasProducts d
      then str ''<br/><br/>'' @ [55357, 57042] @
           str '' <b>Product Recommendations:</b> I found <b>'' @
           decimal (length (productsOrEmpty d)) @ str ''</b> product(s) for you.''
      else str ''<br/><br/>'' @ [55357, 57042] @
           str '' <b>Product Recommendations:</b> Sorry, I couldn't find any products matching your request.'')"

definition imageText :: "response_data \<Rightarrow> jsstring" where
  "imageText d =
     (if hasProducts d
      then [55357, 56764, 65039] @ str '' <b>Image-Based Product Search:</b> I found <b>'' @
           decimal (length (productsOrEmpty d)) @
           str ''</b> product(s) matching your description.''
      else [55357, 56764, 65039] @
           str '' <b>Image-Based Product Search:</b> Sorry, I couldn't find any products matching your description.'')"

definition recommendText :: "response_data \<Rightarrow> jsstring" where
  "recommendText d =
     (if hasProducts d
      then [55357, 56541] @ str '' <b>Text-Based Product Recommendation:</b> I found <b>'' @
           decimal (length (productsOrEmpty d)) @
           str ''</b> product(s) that match your request.''
      else [55357, 56541] @
           str '' <b>Text-Based Product Recommendation:</b> Sorry, I couldn't find any products matching your request.'')"

text \<open>
  The \<open>try\<close> block of \<open>handleSubmit\<close>, run on the state after the user message was
  appended. It returns the exception it raised, if any, the state as the setters left it
  at that point, and the requests it sent. In Agent Mode every query goes to the agent
  endpoint and the block returns before the dispatch on the query text.
\<close>

definition tryBlock ::
  "lowercasing \<Rightarrow> backend \<Rightarrow> jsstring \<Rightarrow> chat_state \<Rightarrow> error option \<times> chat_state \<times> request list" where
  "tryBlock toLowerCase post q s =
     (if agentMode s then
        (case post (ApiAgentChat, q) of
           Inl e \<Rightarrow> (Some e, s, [(ApiAgentChat, q)])
         | Inr d \<Rightarrow>
             (let s' = s\<lparr>products := productsOrEmpty d, lastFeature := Some Agent,
                         showProducts := hasProducts d\<rparr>
              in case formatGeminiResponse (data_response d) of
                   Inl e \<Rightarrow> (Some e, s', [(ApiAgentChat, q)])
                 | Inr formatted \<Rightarrow>
                     (None,
                      s'\<lparr>messages := messages s' @ [botMessage (JStr (agentText formatted d))]\<rparr>,
                      [(ApiAgentChat, q)])))
      else
        (case classify toLowerCase q of
           ImageSearch \<Rightarrow>
             (case post (ApiImageSearch, q) of
                Inl e \<Rightarrow> (Some e, s, [(ApiImageSearch, q)])
              | Inr d \<Rightarrow>
                  (None,
                   s\<lparr>products := productsOrEmpty d, lastFeature := Some Image,
                     showProducts := True,
                     messages := messages s @ [botMessage (JStr (imageText d))]\<rparr>,
                   [(ApiImageSearch, q)]))
         | TextRecommendation \<Rightarrow>
             (case post (ApiRecommend, q) of
                Inl e \<Rightarrow> (Some e, s, [(ApiRecommend, q)])
              | Inr d \<Rightarrow>
                  (None,
                   s\<lparr>products := productsOrEmpty d, lastFeature := Some Text,
                     showProducts := True,
                     messages := messages s @ [botMessage (JStr (recommendText d))]\<rparr>,
                   [(ApiRecommend, q)]))
         | GeneralConversation \<Rightarrow>
             (case post (ApiChat, q) of
                Inl e \<Rightarrow> (Some e, s, [(ApiChat, q)])
              | Inr d \<Rightarrow>
                  (None,
                   s\<lparr>products := productsOrEmpty d, lastFeature := Some Chat,
                     showProducts := hasProducts d,
                     messages := messages s @ [botMessage (data_response d)]\<rparr>,
                   [(ApiChat, q)]))))"

text \<open>
  \<open>handleSubmit\<close>: the guard, the user message, the \<open>try\<close> block, the \<open>catch\<close>
  clause (one apology message) and the \<open>finally\<close> clause. The result is the new state
  and the requests sent to the backend.
\<close>

definition handleSubmit ::
  "lowercasing \<Rightarrow> api_status \<Rightarrow> backend \<Rightarrow> chat_state \<Rightarrow> chat_state \<times> request list" where
  "handleSubmit toLowerCase apiStatus post s =
     (if trim (query s) = [] \<or> isLoading s \<or> apiStatus \<noteq> Connected then (s, [])
      else
        (let q = query s;
             s1 = s\<lparr>messages := messages s @ [userMessage q], query := [], isLoading := True\<rparr>
         in case tryBlock toLowerCase post q s1 of
              (None, s2, sent) \<Rightarrow> (s2\<lparr>isLoading := False\<rparr>, sent)
            | (Some e, s2, sent) \<Rightarrow>
                (s2\<lparr>messages := messages s2 @ [errorMessage], isLoading := False\<rparr>, sent)))"

text \<open>
  The \<open>disabled\<close> attribute of the Send button of \<open>InputArea\<close>.
\<close>

definition submitDisabled :: "api_status \<Rightarrow> bool \<Rightarrow> jsstring \<Rightarrow> bool" where
  "submitDisabled apiStatus loading q = (loading \<or> apiStatus \<noteq> Connected \<or> trim q = [])"

section \<open>Sample data\<close>

text \<open>
  The queries of the examples below are ASCII texts. On an ASCII text
  \<open>String.prototype.toLowerCase\<close> maps A-Z to a-z and leaves every other code unit as
  it is. This function does that, and stands for the engine's function in the examples;
  nothing is said with it about texts beyond ASCII.
\<close>

definition asciiLowerCase :: lowercasing where
  "asciiLowerCase s = map (\<lambda>c. if 65 \<le> c \<and> c \<le> 90 then c + 32 else c) s"

text \<open>
  The product of the response example in the API documentation of the README, for the
  concrete states and backends of the witnesses.
\<close>

definition sampleProduct :: product where
  "sampleProduct =
     \<lparr>product_id = 2, name = str ''Adidas Performance T-Shirt'',
      description = str ''High-performance sports t-shirt...'', price = 3499 / 100,
      category = str ''clothing'', brand = str ''Adidas'',
      image_url = str ''https://images.unsplash.com/...'',
      tags = [str ''t-shirt'', str ''sports'', str ''athletic'']\<rparr>"

text \<open>The state of a freshly mounted chat with a query typed in, Agent Mode off.\<close>

definition typedQuery :: "jsstring \<Rightarrow> chat_state" where
  "typedQuery q =
     \<lparr>query = q, messages = [], products = [], isLoading = False, lastFeature = None,
      showProducts = True, agentMode = False\<rparr>"

text \<open>
  A backend that answers as the examples of the README's API documentation do: the chat
  endpoint with a reply and no \<open>products\<close> field, the recommendation and image search
  endpoints with one product, the agent endpoint with a text and an empty product list.
\<close>

definition readmeBackend :: backend where
  "readmeBackend r =
     (case fst r of
        ApiChat \<Rightarrow>
          Inr \<lparr>data_products = None,
               data_response = JStr (str ''I'm ShopBot, your AI-powered shopping assistant!'')\<rparr>
      | ApiRecommend \<Rightarrow> Inr \<lparr>data_products = Some [sampleProduct], data_response = JUndefined\<rparr>
      | ApiImageSearch \<Rightarrow> Inr \<lparr>data_products = Some [sampleProduct], data_response = JUndefined\<rparr>
      | ApiAgentChat \<Rightarrow>
          Inr \<lparr>data_products = Some [], data_response = JStr (str ''Gemini-powered answer...'')\<rparr>)"

section \<open>The matcher of the backend\<close>

text \<open>
  Modelled from the spec: the matcher and ranker of the backend (its Python sources are not
  among the files of the frontend), from the component design of the specification. A
  match result refers to a product, carries a score and names the stage of the fallback
  chain that produced it.
\<close>

datatype matched_via = Semantic | Keyword | Category | Default

text \<open>Modelled from the spec: the MatchResult of the data model.\<close>

record match_result =
  matched_product :: product
  score :: real
  matchedVia :: matched_via

text \<open>
  Modelled from the spec: the catalog index, as far as matching reads it. It holds the
  products it was built from and the similarity of a token sequence to a product (the
  cosine of the two weighted vectors, a floating-point computation that is a parameter
  here), with the design constants of the stages: the threshold of the semantic stage, the
  uniform score of the category stage and the fixed size of the sample of the default
  stage.
\<close>

record catalog_index =
  catalog :: "product list"
  similarity :: "jsstring list \<Rightarrow> product \<Rightarrow> real"
  tau_semantic :: real
  category_score :: real
  default_size :: nat

text \<open>
  Modelled from the spec: results are returned sorted by score descending, ties broken by
  ascending product id.
\<close>

definition ranksBefore :: "match_result \<Rightarrow> match_result \<Rightarrow> bool" where
  "ranksBefore a b =
     (score b < score a \<or>
      (score a = score b \<and> product_id (matched_product a) \<le> product_id (matched_product b)))"

text \<open>Modelled from the spec: one result put at its place in a ranked list.\<close>

fun insertRanked :: "match_result \<Rightarrow> match_result list \<Rightarrow> match_result list" where
  "insertRanked r [] = [r]"
| "insertRanked r (x # xs) = (if ranksBefore r x then r # x # xs else x # insertRanked r xs)"

text \<open>Modelled from the spec: the results of a stage in ranked order.\<close>

definition rank :: "match_result list \<Rightarrow> match_result list" where
  "rank rs = foldr insertRanked rs []"

text \<open>
  Modelled from the spec: the semantic stage keeps the products whose similarity to the
  query is at least the threshold.
\<close>

definition semanticStage :: "catalog_index \<Rightarrow> jsstring list \<Rightarrow> match_result list" where
  "semanticStage index tokens =
     rank (map (\<lambda>p. \<lparr>matched_product = p, score = similarity index tokens p, matchedVia = Semantic\<rparr>)
            (filter (\<lambda>p. tau_semantic index \<le> similarity index tokens p) (catalog index)))"

text \<open>
  Modelled from the spec: a query token overlaps a product when it occurs in one of its
  tags, its name, its brand or its category.
\<close>

definition overlaps :: "jsstring \<Rightarrow> product \<Rightarrow> bool" where
  "overlaps token p =
     list_ex (\<lambda>field. includes_str field token)
       (tags p @ [name p, brand p, category p])"

text \<open>
  Modelled from the spec: the keyword score is the number of overlapping query tokens
  divided by the length of the query.
\<close>

definition keywordScore :: "jsstring list \<Rightarrow> product \<Rightarrow> real" where
  "keywordScore tokens p =
     (if tokens = [] then 0
      else real (length (filter (\<lambda>token. overlaps token p) tokens)) / real (length tokens))"

text \<open>
  Modelled from the spec: the keyword stage keeps the products with a positive keyword
  score.
\<close>

definition keywordStage :: "catalog_index \<Rightarrow> jsstring list \<Rightarrow> match_result list" where
  "keywordStage index tokens =
     rank (map (\<lambda>p. \<lparr>matched_product = p, score = keywordScore tokens p, matchedVia = Keyword\<rparr>)
            (filter (\<lambda>p. 0 < keywordScore tokens p) (catalog index)))"

text \<open>
  Modelled from the spec: the category stage returns all products whose category is one of
  the query tokens, uniformly scored.
\<close>

definition categoryStage :: "catalog_index \<Rightarrow> jsstring list \<Rightarrow> match_result list" where
  "categoryStage index tokens =
     rank (map (\<lambda>p. \<lparr>matched_product = p, score = category_score index, matchedVia = Category\<rparr>)
            (filter (\<lambda>p. category p \<in> set tokens) (catalog index)))"

text \<open>
  Modelled from the spec: the default stage returns a sample of fixed size, the first
  products by id, with score 0.
\<close>

definition defaultStage :: "catalog_index \<Rightarrow> match_result list" where
  "defaultStage index =
     take (default_size index)
       (rank (map (\<lambda>p. \<lparr>matched_product = p, score = 0, matchedVia = Default\<rparr>)
                (catalog index)))"

text \<open>
  Modelled from the spec: \<open>match\<close>, the strict fallback chain. Each stage runs only if
  the stages before it gave nothing, and the result has at most \<open>topN\<close> entries.
\<close>

definition match :: "jsstring list \<Rightarrow> catalog_index \<Rightarrow> nat \<Rightarrow> match_result list" where
  "match tokens index topN =
     take topN
       (if semanticStage index tokens \<noteq> [] then semanticStage index tokens
        else if keywordStage index tokens \<noteq> [] then keywordStage index tokens
        else if categoryStage index tokens \<noteq> [] then categoryStage index tokens
        else defaultStage index)"

section \<open>Facts about the string operations\<close>

lemma trim_Nil_iff: "trim s = [] \<longleftrightarrow> (\<forall>c\<in>set s. isWhiteSpace c)"
proof
  assume "trim s = []"
  then have *: "\<forall>c\<in>set (dropWhile isWhiteSpace s). isWhiteSpace c"
    by (simp add: trim_def)
  show "\<forall>c\<in>set s. isWhiteSpace c"
  proof (cases "dropWhile isWhiteSpace s")
    case Nil
    then show ?thesis by simp
  next
    case (Cons x xs)
    then have "\<not> isWhiteSpace x" using hd_dropWhile[of isWhiteSpace s] by simp
    with * Cons show ?thesis by simp
  qed
next
  assume "\<forall>c\<in>set s. isWhiteSpace c"
  then show "trim s = []" by (auto simp: trim_def dest: set_dropWhileD)
qed

lemma an_not_a: "startsWith s (str ''an '') \<Longrightarrow> \<not> startsWith s (str ''a '')"
  by (cases s; cases "tl s") (auto simp: str_def)

lemma replaceDoubleNewlines_no_asterisk:
  "42 \<notin> set s \<Longrightarrow> 42 \<notin> set (replaceDoubleNewlines s)"
  by (induction s rule: replaceDoubleNewlines.induct) (auto simp: str_def)

lemma replaceNewlines_no_asterisk:
  "42 \<notin> set s \<Longrightarrow> 42 \<notin> set (replaceNewlines s)"
  by (auto simp: replaceNewlines_def str_def)

lemma removeAsterisks_no_asterisk: "42 \<notin> set (removeAsterisks s)"
  by (simp add: removeAsterisks_def)

section \<open>Facts about the submit handler\<close>

lemma handleSubmit_rejected:
  "trim (query s) = [] \<or> isLoading s \<or> apiStatus \<noteq> Connected \<Longrightarrow>
   handleSubmit lower apiStatus post s = (s, [])"
  by (simp add: handleSubmit_def)

lemma handleSubmit_accepted:
  assumes "trim (query s) \<noteq> []" "\<not> isLoading s"
  shows "handleSubmit lower Connected post s =
     (case tryBlock lower post (query s)
             (s\<lparr>messages := messages s @ [userMessage (query s)], query := [],
                isLoading := True\<rparr>) of
        (None, s2, sent) \<Rightarrow> (s2\<lparr>isLoading := False\<rparr>, sent)
      | (Some e, s2, sent) \<Rightarrow>
          (s2\<lparr>messages := messages s2 @ [errorMessage], isLoading := False\<rparr>, sent))"
  using assms by (simp add: handleSubmit_def Let_def)

lemma handleSubmit_sent:
  "trim (query s) \<noteq> [] \<Longrightarrow> \<not> isLoading s \<Longrightarrow>
   snd (handleSubmit lower Connected post s) =
   snd (snd (tryBlock lower post (query s)
     (s\<lparr>messages := messages s @ [userMessage (query s)], query := [], isLoading := True\<rparr>)))"
  by (simp add: handleSubmit_def Let_def split: prod.splits option.splits)

lemma tryBlock_sent:
  "snd (snd (tryBlock lower post q s)) =
     [(if agentMode s then ApiAgentChat
       else case classify lower q of ImageSearch \<Rightarrow> ApiImageSearch
            | TextRecommendation \<Rightarrow> ApiRecommend
            | GeneralConversation \<Rightarrow> ApiChat, q)]"
  by (simp add: tryBlock_def Let_def split: sum.splits intent.splits)

lemma handleSubmit_accepted_sent:
  assumes "trim (query s) \<noteq> []" "\<not> isLoading s"
  shows "snd (handleSubmit lower Connected post s) =
     [(if agentMode s then ApiAgentChat
       else case classify lower (query s) of ImageSearch \<Rightarrow> ApiImageSearch
            | TextRecommendation \<Rightarrow> ApiRecommend
            | GeneralConversation \<Rightarrow> ApiChat, query s)]"
  using assms by (simp add: handleSubmit_sent tryBlock_sent)

text \<open>
  The handler reads the lower-casing function at the query text only: two functions that
  agree there give the same run. What an example below shows with \<open>asciiLowerCase\<close>
  therefore holds with every function that lower-cases the query of the example as
  \<open>asciiLowerCase\<close> does.
\<close>

lemma handleSubmit_lowercasing_at_query:
  "lower1 (query s) = lower2 (query s) \<Longrightarrow>
   handleSubmit lower1 apiStatus post s = handleSubmit lower2 apiStatus post s"
  by (simp add: handleSubmit_def tryBlock_def classify_def Let_def)

section \<open>Facts about the matcher\<close>

lemma insertRanked_not_Nil: "insertRanked r rs \<noteq> []"
  by (cases rs) auto

lemma set_insertRanked: "set (insertRanked r rs) = insert r (set rs)"
  by (induction rs) auto

lemma rank_Nil_iff: "rank rs = [] \<longleftrightarrow> rs = []"
  by (cases rs) (auto simp: rank_def insertRanked_not_Nil)

lemma set_rank: "set (rank rs) = set rs"
  by (induction rs) (auto simp: rank_def set_insertRanked)

lemma defaultStage_Nil_iff:
  "defaultStage index = [] \<longleftrightarrow> default_size index = 0 \<or> catalog index = []"
  by (simp add: defaultStage_def rank_Nil_iff take_eq_Nil)

lemma stages_empty_catalog:
  assumes "catalog index = []"
  shows "semanticStage index tokens = []" and "keywordStage index tokens = []"
    and "categoryStage index tokens = []" and "defaultStage index = []"
  using assms
  by (simp_all add: semanticStage_def keywordStage_def categoryStage_def defaultStage_def rank_def)

lemma stage_results:
  "r \<in> set (semanticStage index tokens) \<Longrightarrow>
     matchedVia r = Semantic \<and> matched_product r \<in> set (catalog index)"
  "r \<in> set (keywordStage index tokens) \<Longrightarrow>
     matchedVia r = Keyword \<and> matched_product r \<in> set (catalog index)"
  "r \<in> set (categoryStage index tokens) \<Longrightarrow>
     matchedVia r = Category \<and> matched_product r \<in> set (catalog index)"
  "r \<in> set (defaultStage index) \<Longrightarrow>
     matchedVia r = Default \<and> score r = 0 \<and> matched_product r \<in> set (catalog index)"
  by (auto simp: semanticStage_def keywordStage_def categoryStage_def defaultStage_def set_rank
      dest!: in_set_takeD)

section \<open>The claims\<close>

subsection \<open>The image rule comes first\<close>

text \<open>
  Claim C1. The image rule comes first: a query whose lower-cased text contains
  "image", "picture", "photo" or "looks like" is classified as an image search, whatever
  else it contains (a trigger word of the recommendation rule included), and an accepted
  submission outside Agent Mode sends it to the image search endpoint and nowhere else.
  This holds for every lower-casing function.
\<close>

theorem image_rule_first:
  assumes "includes_str (lower q) (str ''image'') \<or>
           includes_str (lower q) (str ''picture'') \<or>
           includes_str (lower q) (str ''photo'') \<or>
           includes_str (lower q) (str ''looks like'')"
  shows "classify lower q = ImageSearch \<and>
         (\<forall>post s. query s = q \<and> trim q \<noteq> [] \<and> \<not> agentMode s \<and> \<not> isLoading s \<longrightarrow>
            snd (handleSubmit lower Connected post s) = [(ApiImageSearch, q)])"
proof -
  from assms have "isImageQuery (lower q)"
    by (auto simp: isImageQuery_def)
  then have c: "classify lower q = ImageSearch"
    by (simp add: classify_def)
  then show ?thesis
    by (auto simp: handleSubmit_accepted_sent)
qed

text \<open>
  The rule at a query that holds both "picture" and the recommendation trigger "find".
\<close>

theorem image_rule_first_witness:
  "includes_str (asciiLowerCase (str ''Find a picture of shoes'')) (str ''picture'') \<and>
   includes_str (asciiLowerCase (str ''Find a picture of shoes'')) (str ''find'') \<and>
   classify asciiLowerCase (str ''Find a picture of shoes'') = ImageSearch \<and>
   snd (handleSubmit asciiLowerCase Connected readmeBackend
          (typedQuery (str ''Find a picture of shoes''))) =
     [(ApiImageSearch, str ''Find a picture of shoes'')]"
proof -
  let ?s = "typedQuery (str ''Find a picture of shoes'')"
  have h: "includes_str (asciiLowerCase (str ''Find a picture of shoes'')) (str ''picture'')"
    by (simp add: str_def asciiLowerCase_def)
  have f: "includes_str (asciiLowerCase (str ''Find a picture of shoes'')) (str ''find'')"
    by (simp add: str_def asciiLowerCase_def)
  have s: "query ?s = str ''Find a picture of shoes'' \<and> trim (str ''Find a picture of shoes'') \<noteq> []
      \<and> \<not> agentMode ?s \<and> \<not> isLoading ?s"
    by (simp add: typedQuery_def trim_def str_def isWhiteSpace_def)
  from h s have "classify asciiLowerCase (str ''Find a picture of shoes'') = ImageSearch \<and>
      snd (handleSubmit asciiLowerCase Connected readmeBackend ?s) =
        [(ApiImageSearch, str ''Find a picture of shoes'')]"
    using image_rule_first [of asciiLowerCase "str ''Find a picture of shoes''"] by blast
  with h f show ?thesis by blast
qed

subsection \<open>The fallback chain of the matcher\<close>

text \<open>
  Claim C2, for the matcher of the specification. For every query, against a non-empty
  catalog \<open>match\<close> returns at least one result (when at least one result is asked for
  and the fixed sample of the default stage holds at least one product), and against an
  empty catalog it returns the empty sequence. Every result refers to a product of the
  catalog, and a result of the default stage, with score 0, is returned only when the
  semantic, the keyword and the category stage gave nothing.
\<close>

theorem match_never_empty:
  "(catalog index \<noteq> [] \<and> 0 < topN \<and> 0 < default_size index \<longrightarrow>
      match tokens index topN \<noteq> []) \<and>
   (catalog index = [] \<longrightarrow> match tokens index topN = []) \<and>
   (\<forall>r\<in>set (match tokens index topN).
      matched_product r \<in> set (catalog index) \<and>
      (matchedVia r = Default \<longrightarrow>
         semanticStage index tokens = [] \<and> keywordStage index tokens = [] \<and>
         categoryStage index tokens = [] \<and> score r = 0))"
proof (intro conjI impI ballI)
  assume a: "catalog index \<noteq> [] \<and> 0 < topN \<and> 0 < default_size index"
  then have "defaultStage index \<noteq> []"
    by (simp add: defaultStage_Nil_iff)
  with a show "match tokens index topN \<noteq> []"
    by (simp add: match_def take_eq_Nil)
next
  assume "catalog index = []"
  then show "match tokens index topN = []"
    by (simp add: match_def stages_empty_catalog)
next
  fix r
  assume "r \<in> set (match tokens index topN)"
  then have r: "r \<in> set (if semanticStage index tokens \<noteq> [] then semanticStage index tokens
        else if keywordStage index tokens \<noteq> [] then keywordStage index tokens
        else if categoryStage index tokens \<noteq> [] then categoryStage index tokens
        else defaultStage index)"
    unfolding match_def by (rule in_set_takeD)
  then show "matched_product r \<in> set (catalog index)"
    by (auto split: if_splits dest: stage_results)
  assume "matchedVia r = Default"
  with r show "semanticStage index tokens = []" and "keywordStage index tokens = []"
    and "categoryStage index tokens = []" and "score r = 0"
    by (auto split: if_splits dest: stage_results)
qed

text \<open>
  A catalog of one product. A query the similarity recognises is answered by the semantic
  stage, a query that names a tag by the keyword stage, a query that shares no term with
  the product by the default stage. An empty catalog gives no result.
\<close>

theorem match_never_empty_witness:
  "match [str ''athletic'']
     \<lparr>catalog = [sampleProduct],
      similarity = (\<lambda>tokens p. if str ''athletic'' \<in> set tokens then 1 / 2 else 0),
      tau_semantic = 5 / 100, category_score = 1, default_size = 5\<rparr> 5 =
     [\<lparr>matched_product = sampleProduct, score = 1 / 2, matchedVia = Semantic\<rparr>] \<and>
   match [str ''sports'']
     \<lparr>catalog = [sampleProduct],
      similarity = (\<lambda>tokens p. if str ''athletic'' \<in> set tokens then 1 / 2 else 0),
      tau_semantic = 5 / 100, category_score = 1, default_size = 5\<rparr> 5 =
     [\<lparr>matched_product = sampleProduct, score = 1, matchedVia = Keyword\<rparr>] \<and>
   match [str ''xyz'']
     \<lparr>catalog = [sampleProduct],
      similarity = (\<lambda>tokens p. if str ''athletic'' \<in> set tokens then 1 / 2 else 0),
      tau_semantic = 5 / 100, category_score = 1, default_size = 5\<rparr> 5 =
     [\<lparr>matched_product = sampleProduct, score = 0, matchedVia = Default\<rparr>] \<and>
   match [str ''xyz'']
     \<lparr>catalog = [],
      similarity = (\<lambda>tokens p. if str ''athletic'' \<in> set tokens then 1 / 2 else 0),
      tau_semantic = 5 / 100, category_score = 1, default_size = 5\<rparr> 5 = []"
proof -
  let ?i = "\<lparr>catalog = [sampleProduct],
      similarity = (\<lambda>tokens p. if str ''athletic'' \<in> set tokens then 1 / 2 else 0),
      tau_semantic = 5 / 100, category_score = 1, default_size = 5\<rparr>"
  let ?e = "\<lparr>catalog = [],
      similarity = (\<lambda>tokens p. if str ''athletic'' \<in> set tokens then 1 / 2 else 0),
      tau_semantic = 5 / 100, category_score = 1, default_size = 5\<rparr>"
  have sem: "semanticStage ?i [str ''athletic''] =
      [\<lparr>matched_product = sampleProduct, score = 1 / 2, matchedVia = Semantic\<rparr>]"
    by (simp add: semanticStage_def rank_def)
  have s1: "semanticStage ?i [str ''sports''] = []"
    by (simp add: semanticStage_def rank_def str_def)
  have k1: "keywordStage ?i [str ''sports''] =
      [\<lparr>matched_product = sampleProduct, score = 1, matchedVia = Keyword\<rparr>]"
    by (simp add: keywordStage_def keywordScore_def overlaps_def rank_def sampleProduct_def
        str_def)
  have s2: "semanticStage ?i [str ''xyz''] = []"
    by (simp add: semanticStage_def rank_def str_def)
  have k2: "keywordStage ?i [str ''xyz''] = []"
    by (simp add: keywordStage_def keywordScore_def overlaps_def rank_def sampleProduct_def
        str_def)
  have c2: "categoryStage ?i [str ''xyz''] = []"
    by (simp add: categoryStage_def rank_def sampleProduct_def str_def)
  have d2: "defaultStage ?i =
      [\<lparr>matched_product = sampleProduct, score = 0, matchedVia = Default\<rparr>]"
    by (simp add: defaultStage_def rank_def)
  have m0: "match [str ''athletic''] ?i 5 =
      [\<lparr>matched_product = sampleProduct, score = 1 / 2, matchedVia = Semantic\<rparr>]"
    using sem by (simp add: match_def)
  have m1: "match [str ''sports''] ?i 5 =
      [\<lparr>matched_product = sampleProduct, score = 1, matchedVia = Keyword\<rparr>]"
    using s1 k1 by (simp add: match_def)
  have m2: "match [str ''xyz''] ?i 5 =
      [\<lparr>matched_product = sampleProduct, score = 0, matchedVia = Default\<rparr>]"
    using s2 k2 c2 d2 by (simp add: match_def)
  have "catalog ?i \<noteq> [] \<and> (0::nat) < 5 \<and> 0 < default_size ?i" by simp
  with match_never_empty [of ?i 5 "[str ''xyz'']"]
  have n: "match [str ''xyz''] ?i 5 \<noteq> []" by blast
  have "catalog ?e = []" by simp
  with match_never_empty [of ?e 5 "[str ''xyz'']"]
  have "match [str ''xyz''] ?e 5 = []" by blast
  with m0 m1 m2 n show ?thesis by blast
qed

subsection \<open>Queries that start with an article\<close>

text \<open>
  Claim C3, as the code has it. A query whose lower-cased text starts with "a " is
  classified as an image search. The code has no test for "an ": a query whose lower-cased
  text starts with "an " is an image search exactly when that text contains one of the
  four image keywords. This holds for every lower-casing function.
\<close>

theorem leading_a_rule:
  "(startsWith (lower q) (str ''a '') \<longrightarrow> classify lower q = ImageSearch) \<and>
   (startsWith (lower q) (str ''an '') \<longrightarrow>
      (classify lower q = ImageSearch \<longleftrightarrow>
         includes_str (lower q) (str ''image'') \<or>
         includes_str (lower q) (str ''picture'') \<or>
         includes_str (lower q) (str ''photo'') \<or>
         includes_str (lower q) (str ''looks like'')))"
proof (intro conjI impI)
  assume "startsWith (lower q) (str ''a '')"
  then show "classify lower q = ImageSearch"
    by (simp add: classify_def isImageQuery_def)
next
  assume "startsWith (lower q) (str ''an '')"
  then have "\<not> startsWith (lower q) (str ''a '')"
    by (rule an_not_a)
  then show "classify lower q = ImageSearch \<longleftrightarrow>
         includes_str (lower q) (str ''image'') \<or>
         includes_str (lower q) (str ''picture'') \<or>
         includes_str (lower q) (str ''photo'') \<or>
         includes_str (lower q) (str ''looks like'')"
    by (auto simp: classify_def isImageQuery_def Let_def)
qed

text \<open>
  The rule at "A blue sports t-shirt" and at "An umbrella".
\<close>

theorem leading_a_rule_witness:
  "startsWith (asciiLowerCase (str ''A blue sports t-shirt'')) (str ''a '') \<and>
   classify asciiLowerCase (str ''A blue sports t-shirt'') = ImageSearch \<and>
   startsWith (asciiLowerCase (str ''An umbrella'')) (str ''an '') \<and>
   classify asciiLowerCase (str ''An umbrella'') \<noteq> ImageSearch"
proof -
  have a: "startsWith (asciiLowerCase (str ''A blue sports t-shirt'')) (str ''a '')"
    by (simp add: str_def asciiLowerCase_def)
  have an: "startsWith (asciiLowerCase (str ''An umbrella'')) (str ''an '')"
    by (simp add: str_def asciiLowerCase_def)
  have no: "\<not> (includes_str (asciiLowerCase (str ''An umbrella'')) (str ''image'') \<or>
         includes_str (asciiLowerCase (str ''An umbrella'')) (str ''picture'') \<or>
         includes_str (asciiLowerCase (str ''An umbrella'')) (str ''photo'') \<or>
         includes_str (asciiLowerCase (str ''An umbrella'')) (str ''looks like''))"
    by (simp add: str_def asciiLowerCase_def)
  from a have 1: "classify asciiLowerCase (str ''A blue sports t-shirt'') = ImageSearch"
    using leading_a_rule [of asciiLowerCase "str ''A blue sports t-shirt''"] by blast
  from an no have 2: "classify asciiLowerCase (str ''An umbrella'') \<noteq> ImageSearch"
    using leading_a_rule [of asciiLowerCase "str ''An umbrella''"] by blast
  from a an 1 2 show ?thesis by blast
qed

text \<open>
  Claim C3 as stated fails: "an orange hoodie" is its own lower-cased text, starts with
  "an ", contains no image keyword, and is classified as general conversation.
\<close>

theorem leading_an_counterexample:
  "asciiLowerCase (str ''an orange hoodie'') = str ''an orange hoodie'' \<and>
   startsWith (asciiLowerCase (str ''an orange hoodie'')) (str ''an '') \<and>
   \<not> includes_str (asciiLowerCase (str ''an orange hoodie'')) (str ''image'') \<and>
   \<not> includes_str (asciiLowerCase (str ''an orange hoodie'')) (str ''picture'') \<and>
   \<not> includes_str (asciiLowerCase (str ''an orange hoodie'')) (str ''photo'') \<and>
   \<not> includes_str (asciiLowerCase (str ''an orange hoodie'')) (str ''looks like'') \<and>
   classify asciiLowerCase (str ''an orange hoodie'') = GeneralConversation"
  by (simp add: classify_def isImageQuery_def isTextQuery_def str_def asciiLowerCase_def)

subsection \<open>Agent Mode\<close>

text \<open>
  Claim C4, as the code has it. An accepted submission sends one request. In Agent Mode
  it goes to the agent endpoint whatever the query text, and the dispatch on the text does
  not run; outside Agent Mode the endpoint is the one the classification names. In Agent
  Mode the displayed products are those of the agent's response, and when the agent's text
  can be formatted, the bot message is the Agent Mode label, the formatted text and then a
  sentence about the products.
\<close>

theorem agent_mode_replaces_dispatch:
  assumes "trim (query s) \<noteq> []" and "\<not> isLoading s"
  shows "snd (handleSubmit lower Connected post s) =
           [(if agentMode s then ApiAgentChat
             else case classify lower (query s) of ImageSearch \<Rightarrow> ApiImageSearch
                  | TextRecommendation \<Rightarrow> ApiRecommend
                  | GeneralConversation \<Rightarrow> ApiChat, query s)] \<and>
         (agentMode s \<longrightarrow>
            (\<forall>d. post (ApiAgentChat, query s) = Inr d \<longrightarrow>
               products (fst (handleSubmit lower Connected post s)) = productsOrEmpty d \<and>
               lastFeature (fst (handleSubmit lower Connected post s)) = Some Agent \<and>
               (\<forall>formatted. formatGeminiResponse (data_response d) = Inr formatted \<longrightarrow>
                  messages (fst (handleSubmit lower Connected post s)) =
                    messages s @ [userMessage (query s), botMessage (JStr (agentText formatted d))] \<and>
                  (\<exists>sentence. agentText formatted d =
                     str ''<b>'' @ [55358, 56598] @ str '' Agent Mode:</b> '' @ formatted @ sentence))))"
proof (intro conjI impI allI)
  show "snd (handleSubmit lower Connected post s) =
           [(if agentMode s then ApiAgentChat
             else case classify lower (query s) of ImageSearch \<Rightarrow> ApiImageSearch
                  | TextRecommendation \<Rightarrow> ApiRecommend
                  | GeneralConversation \<Rightarrow> ApiChat, query s)]"
    using assms by (rule handleSubmit_accepted_sent)
next
  fix d
  assume a: "agentMode s" and d: "post (ApiAgentChat, query s) = Inr d"
  show "products (fst (handleSubmit lower Connected post s)) = productsOrEmpty d"
    using a d by (simp add: handleSubmit_accepted [OF assms] tryBlock_def Let_def split: sum.splits)
  show "lastFeature (fst (handleSubmit lower Connected post s)) = Some Agent"
    using a d by (simp add: handleSubmit_accepted [OF assms] tryBlock_def Let_def split: sum.splits)
  fix formatted
  assume f: "formatGeminiResponse (data_response d) = Inr formatted"
  show "messages (fst (handleSubmit lower Connected post s)) =
          messages s @ [userMessage (query s), botMessage (JStr (agentText formatted d))]"
    using a d f by (simp add: handleSubmit_accepted [OF assms] tryBlock_def Let_def)
  show "\<exists>sentence. agentText formatted d =
          str ''<b>'' @ [55358, 56598] @ str '' Agent Mode:</b> '' @ formatted @ sentence"
    by (simp add: agentText_def)
qed

text \<open>
  Agent Mode at "Find electronics", with the backend of the README.
\<close>

theorem agent_mode_replaces_dispatch_witness:
  "snd (handleSubmit asciiLowerCase Connected readmeBackend
          ((typedQuery (str ''Find electronics'')) \<lparr>agentMode := True\<rparr>)) =
     [(ApiAgentChat, str ''Find electronics'')] \<and>
   products (fst (handleSubmit asciiLowerCase Connected readmeBackend
          ((typedQuery (str ''Find electronics'')) \<lparr>agentMode := True\<rparr>))) = [] \<and>
   messages (fst (handleSubmit asciiLowerCase Connected readmeBackend
          ((typedQuery (str ''Find electronics'')) \<lparr>agentMode := True\<rparr>))) =
     [userMessage (str ''Find electronics''),
      botMessage (JStr (agentText (str ''Gemini-powered answer...'')
        \<lparr>data_products = Some [], data_response = JStr (str ''Gemini-powered answer...'')\<rparr>))]"
proof -
  let ?s = "(typedQuery (str ''Find electronics'')) \<lparr>agentMode := True\<rparr>"
  let ?d = "\<lparr>data_products = Some [], data_response = JStr (str ''Gemini-powered answer...'')\<rparr>"
  have q: "query ?s = str ''Find electronics''" and m: "messages ?s = []"
    and a: "agentMode ?s"
    by (simp_all add: typedQuery_def)
  have t: "trim (query ?s) \<noteq> []"
    by (simp add: typedQuery_def trim_def str_def isWhiteSpace_def)
  have l: "\<not> isLoading ?s"
    by (simp add: typedQuery_def)
  have d: "readmeBackend (ApiAgentChat, query ?s) = Inr ?d"
    by (simp add: readmeBackend_def)
  have f: "formatGeminiResponse (data_response ?d) = Inr (str ''Gemini-powered answer...'')"
    by (simp add: formatGeminiResponse_def replaceNewlines_def removeAsterisks_def
        isLineTerminator_def str_def)
  have p: "productsOrEmpty ?d = []"
    by (simp add: productsOrEmpty_def)
  from agent_mode_replaces_dispatch [OF t l, of asciiLowerCase readmeBackend] a d f p q m
  show ?thesis by auto
qed

text \<open>
  Claim C4 as stated fails: for "Find electronics" the request goes to the recommendation
  endpoint without Agent Mode and to the agent endpoint with it, and the products displayed
  differ.
\<close>

theorem agent_mode_same_route_counterexample:
  "snd (handleSubmit asciiLowerCase Connected readmeBackend (typedQuery (str ''Find electronics''))) =
     [(ApiRecommend, str ''Find electronics'')] \<and>
   snd (handleSubmit asciiLowerCase Connected readmeBackend
          ((typedQuery (str ''Find electronics'')) \<lparr>agentMode := True\<rparr>)) =
     [(ApiAgentChat, str ''Find electronics'')] \<and>
   products (fst (handleSubmit asciiLowerCase Connected readmeBackend (typedQuery (str ''Find electronics'')))) =
     [sampleProduct] \<and>
   products (fst (handleSubmit asciiLowerCase Connected readmeBackend
          ((typedQuery (str ''Find electronics'')) \<lparr>agentMode := True\<rparr>))) = []"
proof -
  have t: "trim (str ''Find electronics'') \<noteq> []"
    by (simp add: trim_def str_def isWhiteSpace_def)
  have c: "classify asciiLowerCase (str ''Find electronics'') = TextRecommendation"
    by (simp add: classify_def isImageQuery_def isTextQuery_def str_def asciiLowerCase_def)
  have f: "formatGeminiResponse (JStr (str ''Gemini-powered answer...'')) =
             Inr (str ''Gemini-powered answer...'')"
    by (simp add: formatGeminiResponse_def replaceNewlines_def removeAsterisks_def
        isLineTerminator_def str_def)
  show ?thesis
    using t c f
    by (simp add: handleSubmit_def tryBlock_def typedQuery_def readmeBackend_def
        productsOrEmpty_def hasProducts_def Let_def)
qed

subsection \<open>General conversation\<close>

text \<open>
  Claim C5, as the code has it. For a query that the chain classifies as general
  conversation (its lower-cased text satisfies neither the image nor the recommendation
  condition, for whatever lower-casing function), an accepted submission outside Agent
  Mode sends the query to the chat endpoint; the bot message is the reply of the backend,
  and the products displayed are the products of the response: none when the response has
  no products or an empty list, and then the product panel is hidden.
\<close>

theorem general_conversation_relays_backend:
  assumes "classify lower (query s) = GeneralConversation"
    and "trim (query s) \<noteq> []" and "\<not> isLoading s" and "\<not> agentMode s"
    and "post (ApiChat, query s) = Inr d"
  shows "snd (handleSubmit lower Connected post s) = [(ApiChat, query s)] \<and>
         messages (fst (handleSubmit lower Connected post s)) =
           messages s @ [userMessage (query s), botMessage (data_response d)] \<and>
         products (fst (handleSubmit lower Connected post s)) = productsOrEmpty d \<and>
         showProducts (fst (handleSubmit lower Connected post s)) = hasProducts d \<and>
         lastFeature (fst (handleSubmit lower Connected post s)) = Some Chat \<and>
         (data_products d = None \<or> data_products d = Some [] \<longrightarrow>
            products (fst (handleSubmit lower Connected post s)) = [] \<and>
            \<not> showProducts (fst (handleSubmit lower Connected post s)))"
  using assms(1,4,5)
  by (auto simp: handleSubmit_accepted [OF assms(2,3)] tryBlock_def productsOrEmpty_def
      hasProducts_def)

text \<open>
  "What's your name?" with the backend of the README: the reply and no products.
\<close>

theorem general_conversation_relays_backend_witness:
  "classify asciiLowerCase (str ''What's your name?'') = GeneralConversation \<and>
   snd (handleSubmit asciiLowerCase Connected readmeBackend (typedQuery (str ''What's your name?''))) =
     [(ApiChat, str ''What's your name?'')] \<and>
   messages (fst (handleSubmit asciiLowerCase Connected readmeBackend (typedQuery (str ''What's your name?'')))) =
     [userMessage (str ''What's your name?''),
      botMessage (JStr (str ''I'm ShopBot, your AI-powered shopping assistant!''))] \<and>
   products (fst (handleSubmit asciiLowerCase Connected readmeBackend (typedQuery (str ''What's your name?'')))) = []"
proof -
  let ?s = "typedQuery (str ''What's your name?'')"
  let ?d = "\<lparr>data_products = None,
             data_response = JStr (str ''I'm ShopBot, your AI-powered shopping assistant!'')\<rparr>"
  have q: "query ?s = str ''What's your name?''" and m: "messages ?s = []"
    by (simp_all add: typedQuery_def)
  have c: "classify asciiLowerCase (str ''What's your name?'') = GeneralConversation"
    by (simp add: classify_def isImageQuery_def isTextQuery_def str_def
        asciiLowerCase_def)
  have t: "trim (str ''What's your name?'') \<noteq> []"
    by (simp add: trim_def str_def isWhiteSpace_def)
  have l: "\<not> isLoading ?s" and a: "\<not> agentMode ?s"
    by (simp_all add: typedQuery_def)
  have d: "readmeBackend (ApiChat, str ''What's your name?'') = Inr ?d"
    by (simp add: readmeBackend_def)
  have p: "productsOrEmpty ?d = []" and r: "data_response ?d =
      JStr (str ''I'm ShopBot, your AI-powered shopping assistant!'')"
    by (simp_all add: productsOrEmpty_def)
  note th = general_conversation_relays_backend [of asciiLowerCase ?s readmeBackend ?d, unfolded q m p r]
  from th [OF c t l a d] c show ?thesis
    by simp
qed

text \<open>
  Claim C5 as stated fails: "I need a yoga mat" takes the general conversation path, and
  when the chat endpoint answers with a product, the handler displays it.
\<close>

theorem general_conversation_products_counterexample:
  "classify asciiLowerCase (str ''I need a yoga mat'') = GeneralConversation \<and>
   snd (handleSubmit asciiLowerCase Connected
          (\<lambda>r. Inr \<lparr>data_products = Some [sampleProduct],
                     data_response = JStr (str ''Here is what I found.'')\<rparr>)
          (typedQuery (str ''I need a yoga mat''))) = [(ApiChat, str ''I need a yoga mat'')] \<and>
   products (fst (handleSubmit asciiLowerCase Connected
          (\<lambda>r. Inr \<lparr>data_products = Some [sampleProduct],
                     data_response = JStr (str ''Here is what I found.'')\<rparr>)
          (typedQuery (str ''I need a yoga mat'')))) = [sampleProduct] \<and>
   showProducts (fst (handleSubmit asciiLowerCase Connected
          (\<lambda>r. Inr \<lparr>data_products = Some [sampleProduct],
                     data_response = JStr (str ''Here is what I found.'')\<rparr>)
          (typedQuery (str ''I need a yoga mat''))))"
proof -
  have t: "trim (str ''I need a yoga mat'') \<noteq> []"
    by (simp add: trim_def str_def isWhiteSpace_def)
  have c: "classify asciiLowerCase (str ''I need a yoga mat'') = GeneralConversation"
    by (simp add: classify_def isImageQuery_def isTextQuery_def str_def asciiLowerCase_def)
  show ?thesis
    using t c
    by (simp add: handleSubmit_def tryBlock_def typedQuery_def productsOrEmpty_def
        hasProducts_def Let_def)
qed

subsection \<open>The recommendation rule\<close>

text \<open>
  Claim C6. A query whose lower-cased text does not satisfy the image condition and
  contains "recommend", "search", "find", "show me" or "looking for" is classified as a
  text recommendation, and an accepted submission outside Agent Mode sends it to the
  recommendation endpoint and nowhere else. This holds for every lower-casing function.
\<close>

theorem text_rule_second:
  assumes "\<not> isImageQuery (lower q)"
    and "includes_str (lower q) (str ''recommend'') \<or>
         includes_str (lower q) (str ''search'') \<or>
         includes_str (lower q) (str ''find'') \<or>
         includes_str (lower q) (str ''show me'') \<or>
         includes_str (lower q) (str ''looking for'')"
  shows "classify lower q = TextRecommendation \<and>
         (\<forall>post s. query s = q \<and> trim q \<noteq> [] \<and> \<not> agentMode s \<and> \<not> isLoading s \<longrightarrow>
            snd (handleSubmit lower Connected post s) = [(ApiRecommend, q)])"
proof -
  from assms(2) have "isTextQuery (lower q)"
    by (auto simp: isTextQuery_def)
  with assms(1) have c: "classify lower q = TextRecommendation"
    by (simp add: classify_def)
  then show ?thesis
    by (auto simp: handleSubmit_accepted_sent)
qed

text \<open>
  The rule at "Recommend me a t-shirt for sports".
\<close>

theorem text_rule_second_witness:
  "\<not> isImageQuery (asciiLowerCase (str ''Recommend me a t-shirt for sports'')) \<and>
   includes_str (asciiLowerCase (str ''Recommend me a t-shirt for sports'')) (str ''recommend'') \<and>
   classify asciiLowerCase (str ''Recommend me a t-shirt for sports'') = TextRecommendation \<and>
   snd (handleSubmit asciiLowerCase Connected readmeBackend
          (typedQuery (str ''Recommend me a t-shirt for sports''))) =
     [(ApiRecommend, str ''Recommend me a t-shirt for sports'')]"
proof -
  let ?s = "typedQuery (str ''Recommend me a t-shirt for sports'')"
  have n: "\<not> isImageQuery (asciiLowerCase (str ''Recommend me a t-shirt for sports''))"
    by (simp add: isImageQuery_def str_def asciiLowerCase_def)
  have r: "includes_str (asciiLowerCase (str ''Recommend me a t-shirt for sports''))
      (str ''recommend'')"
    by (simp add: str_def asciiLowerCase_def)
  have s: "query ?s = str ''Recommend me a t-shirt for sports'' \<and>
      trim (str ''Recommend me a t-shirt for sports'') \<noteq> [] \<and> \<not> agentMode ?s \<and> \<not> isLoading ?s"
    by (simp add: typedQuery_def trim_def str_def isWhiteSpace_def)
  from n r s have "classify asciiLowerCase (str ''Recommend me a t-shirt for sports'') =
        TextRecommendation \<and>
      snd (handleSubmit asciiLowerCase Connected readmeBackend ?s) =
        [(ApiRecommend, str ''Recommend me a t-shirt for sports'')]"
    using text_rule_second [of asciiLowerCase "str ''Recommend me a t-shirt for sports''"]
    by blast
  with n r show ?thesis by blast
qed

subsection \<open>Blank queries\<close>

text \<open>
  Claim C7, as the code has it. For an empty or white-space-only query the handler returns
  at its guard and does nothing: the state is unchanged, so no message, no reply and no
  feature is recorded; no request is sent to any endpoint, so no matching runs; nothing is
  raised. The Send button is disabled for such a query as well.
\<close>

theorem blank_query_short_circuit:
  assumes "\<forall>c\<in>set (query s). isWhiteSpace c"
  shows "handleSubmit lower apiStatus post s = (s, []) \<and>
         submitDisabled apiStatus (isLoading s) (query s)"
proof -
  from assms have "trim (query s) = []"
    by (simp add: trim_Nil_iff)
  then show ?thesis
    by (simp add: handleSubmit_def submitDisabled_def)
qed

text \<open>
  The guard at a query of a space, a tab and a newline.
\<close>

theorem blank_query_short_circuit_witness:
  "trim [32, 9, 10] = [] \<and>
   handleSubmit asciiLowerCase Connected readmeBackend (typedQuery [32, 9, 10]) =
     (typedQuery [32, 9, 10], []) \<and>
   submitDisabled Connected False [32, 9, 10]"
proof -
  have w: "\<forall>c\<in>set (query (typedQuery [32, 9, 10])). isWhiteSpace c"
    by (simp add: typedQuery_def isWhiteSpace_def)
  have t: "trim [32, 9, 10] = []"
    by (simp add: trim_def isWhiteSpace_def)
  have q: "query (typedQuery [32, 9, 10]) = [32, 9, 10]"
    and l: "isLoading (typedQuery [32, 9, 10]) = False"
    by (simp_all add: typedQuery_def)
  from blank_query_short_circuit [OF w, of asciiLowerCase Connected readmeBackend, unfolded q l] t
  show ?thesis by blast
qed

text \<open>
  Claim C7 as stated fails in its outcome: a query of three spaces gets no default or
  fallback reply and no intent. After the submission the conversation still holds the one
  message it held before, no feature is recorded and no request was sent; the query text
  itself is left in the input field.
\<close>

theorem blank_query_no_fallback_counterexample:
  "trim (str ''   '') = [] \<and>
   messages (fst (handleSubmit asciiLowerCase Connected readmeBackend
      ((typedQuery (str ''   '')) \<lparr>messages := [botMessage (JStr (str ''Hello!''))]\<rparr>))) =
     [botMessage (JStr (str ''Hello!''))] \<and>
   lastFeature (fst (handleSubmit asciiLowerCase Connected readmeBackend
      ((typedQuery (str ''   '')) \<lparr>messages := [botMessage (JStr (str ''Hello!''))]\<rparr>))) = None \<and>
   query (fst (handleSubmit asciiLowerCase Connected readmeBackend
      ((typedQuery (str ''   '')) \<lparr>messages := [botMessage (JStr (str ''Hello!''))]\<rparr>))) =
     str ''   '' \<and>
   snd (handleSubmit asciiLowerCase Connected readmeBackend
      ((typedQuery (str ''   '')) \<lparr>messages := [botMessage (JStr (str ''Hello!''))]\<rparr>)) = []"
  by (simp add: handleSubmit_def typedQuery_def trim_def str_def isWhiteSpace_def)

subsection \<open>The dispatch is a function of the query text\<close>

text \<open>
  Claim C8. The dispatch is total and deterministic. Two submissions with the same query
  text and the same flags send the same requests, whatever the rest of the state (the
  conversation, the displayed products, the last feature) and whatever the backend
  answers; and an accepted submission sends exactly one request, to exactly one endpoint.
  This holds for every lower-casing function.
\<close>

theorem dispatch_total_deterministic:
  assumes "query s1 = query s2" and "agentMode s1 = agentMode s2"
    and "isLoading s1 = isLoading s2"
  shows "snd (handleSubmit lower apiStatus post1 s1) = snd (handleSubmit lower apiStatus post2 s2) \<and>
         (trim (query s1) \<noteq> [] \<and> \<not> isLoading s1 \<and> apiStatus = Connected \<longrightarrow>
            (\<exists>!ep. snd (handleSubmit lower apiStatus post1 s1) = [(ep, query s1)]))"
proof (cases "trim (query s1) = [] \<or> isLoading s1 \<or> apiStatus \<noteq> Connected")
  case True
  with assms show ?thesis
    by (auto simp: handleSubmit_rejected)
next
  case False
  then have a1: "trim (query s1) \<noteq> []" "\<not> isLoading s1" and c: "apiStatus = Connected"
    by auto
  with assms have a2: "trim (query s2) \<noteq> []" "\<not> isLoading s2"
    by auto
  have "snd (handleSubmit lower Connected post1 s1) = snd (handleSubmit lower Connected post2 s2)"
    using assms by (simp add: handleSubmit_accepted_sent [OF a1] handleSubmit_accepted_sent [OF a2])
  moreover have "\<exists>!ep. snd (handleSubmit lower Connected post1 s1) = [(ep, query s1)]"
    by (simp add: handleSubmit_accepted_sent [OF a1])
  ultimately show ?thesis using c by simp
qed

text \<open>
  Two states with different conversations and two different backends, at
  "Show me t-shirts": both send the query to the recommendation endpoint.
\<close>

theorem dispatch_total_deterministic_witness:
  "snd (handleSubmit asciiLowerCase Connected (\<lambda>r. Inl RequestFailed)
     \<lparr>query = str ''Show me t-shirts'', messages = [], products = [], isLoading = False,
      lastFeature = None, showProducts = True, agentMode = False\<rparr>) =
   snd (handleSubmit asciiLowerCase Connected (\<lambda>r. Inr \<lparr>data_products = None, data_response = JNull\<rparr>)
     \<lparr>query = str ''Show me t-shirts'', messages = [userMessage (str ''hi'')], products = [],
      isLoading = False, lastFeature = Some Chat, showProducts = False, agentMode = False\<rparr>) \<and>
   snd (handleSubmit asciiLowerCase Connected (\<lambda>r. Inl RequestFailed)
     \<lparr>query = str ''Show me t-shirts'', messages = [], products = [], isLoading = False,
      lastFeature = None, showProducts = True, agentMode = False\<rparr>) =
   [(ApiRecommend, str ''Show me t-shirts'')]"
proof -
  let ?s1 = "\<lparr>query = str ''Show me t-shirts'', messages = [], products = [], isLoading = False,
      lastFeature = None, showProducts = True, agentMode = False\<rparr>"
  let ?s2 = "\<lparr>query = str ''Show me t-shirts'', messages = [userMessage (str ''hi'')], products = [],
      isLoading = False, lastFeature = Some Chat, showProducts = False, agentMode = False\<rparr>"
  have t: "trim (str ''Show me t-shirts'') \<noteq> []"
    by (simp add: trim_def str_def isWhiteSpace_def)
  have c: "classify asciiLowerCase (str ''Show me t-shirts'') = TextRecommendation"
    by (simp add: classify_def isImageQuery_def isTextQuery_def str_def asciiLowerCase_def)
  have d: "snd (handleSubmit asciiLowerCase Connected (\<lambda>r. Inl RequestFailed) ?s1) =
           snd (handleSubmit asciiLowerCase Connected (\<lambda>r. Inr \<lparr>data_products = None, data_response = JNull\<rparr>) ?s2)"
    using dispatch_total_deterministic [of ?s1 ?s2 asciiLowerCase Connected "\<lambda>r. Inl RequestFailed"
        "\<lambda>r. Inr \<lparr>data_products = None, data_response = JNull\<rparr>"]
    by simp
  have e: "snd (handleSubmit asciiLowerCase Connected (\<lambda>r. Inl RequestFailed) ?s1) =
           [(ApiRecommend, str ''Show me t-shirts'')]"
    using t c by (simp add: handleSubmit_accepted_sent)
  from d e show ?thesis by blast
qed

subsection \<open>A failed request\<close>

text \<open>
  Claim C9. If the request that a submission sends is rejected, the conversation grows by
  the user message and exactly one bot message, the apology; the displayed products, their
  visibility and the last feature are as before the submission; the loading flag is
  cleared. The handler returns a state: the exception stops in the \<open>catch\<close> clause.
\<close>

theorem request_failure_atomic:
  assumes "snd (handleSubmit lower apiStatus post s) = [r]" and "post r = Inl e"
  shows "messages (fst (handleSubmit lower apiStatus post s)) =
           messages s @ [userMessage (query s), errorMessage] \<and>
         products (fst (handleSubmit lower apiStatus post s)) = products s \<and>
         showProducts (fst (handleSubmit lower apiStatus post s)) = showProducts s \<and>
         lastFeature (fst (handleSubmit lower apiStatus post s)) = lastFeature s \<and>
         isLoading (fst (handleSubmit lower apiStatus post s)) = False"
proof -
  have g: "\<not> (trim (query s) = [] \<or> isLoading s \<or> apiStatus \<noteq> Connected)"
  proof
    assume "trim (query s) = [] \<or> isLoading s \<or> apiStatus \<noteq> Connected"
    then have "handleSubmit lower apiStatus post s = (s, [])"
      by (rule handleSubmit_rejected)
    with assms(1) show False by simp
  qed
  then have a: "trim (query s) \<noteq> []" "\<not> isLoading s" and c: "apiStatus = Connected"
    by auto
  let ?ep = "if agentMode s then ApiAgentChat
       else case classify lower (query s) of ImageSearch \<Rightarrow> ApiImageSearch
            | TextRecommendation \<Rightarrow> ApiRecommend
            | GeneralConversation \<Rightarrow> ApiChat"
  from assms(1) c have r: "r = (?ep, query s)"
    by (simp add: handleSubmit_accepted_sent [OF a])
  with assms(2) have f: "post (?ep, query s) = Inl e"
    by simp
  show ?thesis
    using g f by (auto simp: handleSubmit_def tryBlock_def Let_def split: intent.splits if_splits)
qed

text \<open>
  A failing backend at "Find electronics", with one product on display.
\<close>

theorem request_failure_atomic_witness:
  "snd (handleSubmit asciiLowerCase Connected (\<lambda>r. Inl RequestFailed)
         ((typedQuery (str ''Find electronics'')) \<lparr>products := [sampleProduct]\<rparr>)) =
     [(ApiRecommend, str ''Find electronics'')] \<and>
   messages (fst (handleSubmit asciiLowerCase Connected (\<lambda>r. Inl RequestFailed)
         ((typedQuery (str ''Find electronics'')) \<lparr>products := [sampleProduct]\<rparr>))) =
     [userMessage (str ''Find electronics''), errorMessage] \<and>
   products (fst (handleSubmit asciiLowerCase Connected (\<lambda>r. Inl RequestFailed)
         ((typedQuery (str ''Find electronics'')) \<lparr>products := [sampleProduct]\<rparr>))) =
     [sampleProduct]"
proof -
  let ?s = "(typedQuery (str ''Find electronics'')) \<lparr>products := [sampleProduct]\<rparr>"
  have t: "trim (str ''Find electronics'') \<noteq> []"
    by (simp add: trim_def str_def isWhiteSpace_def)
  have c: "classify asciiLowerCase (str ''Find electronics'') = TextRecommendation"
    by (simp add: classify_def isImageQuery_def isTextQuery_def str_def asciiLowerCase_def)
  have sent: "snd (handleSubmit asciiLowerCase Connected (\<lambda>r. Inl RequestFailed) ?s) =
           [(ApiRecommend, str ''Find electronics'')]"
    using t c by (simp add: handleSubmit_accepted_sent typedQuery_def)
  from request_failure_atomic [OF sent, of RequestFailed] sent
  show ?thesis by (simp add: typedQuery_def)
qed

subsection \<open>The formatted agent text has no asterisk\<close>

text \<open>
  Claim C10. \<open>formatGeminiResponse\<close> returns the empty string for \<open>null\<close>,
  \<open>undefined\<close> and the empty string, and for every string it returns a string
  without any asterisk (code unit 42).
\<close>

theorem formatGeminiResponse_total_no_asterisk:
  "formatGeminiResponse JNull = Inr [] \<and>
   formatGeminiResponse JUndefined = Inr [] \<and>
   formatGeminiResponse (JStr []) = Inr [] \<and>
   (\<forall>s. \<exists>out. formatGeminiResponse (JStr s) = Inr out \<and> 42 \<notin> set out)"
proof -
  have "\<exists>out. formatGeminiResponse (JStr s) = Inr out \<and> 42 \<notin> set out" for s
    by (simp add: formatGeminiResponse_def replaceNewlines_no_asterisk
        replaceDoubleNewlines_no_asterisk removeAsterisks_no_asterisk)
  then show ?thesis
    by (simp add: formatGeminiResponse_def)
qed

text \<open>
  Two bulleted lines with emphasis marks: the leading asterisks become bullets, the others
  are removed, the newline becomes a line break.
\<close>

theorem formatGeminiResponse_total_no_asterisk_witness:
  "formatGeminiResponse (JStr (str ''* a *b*'' @ [10] @ str ''* c'')) =
     Inr ([8226] @ str '' a b<br/>'' @ [8226] @ str '' c'') \<and>
   42 \<notin> set ([8226] @ str '' a b<br/>'' @ [8226] @ str '' c'')"
proof -
  have e: "formatGeminiResponse (JStr (str ''* a *b*'' @ [10] @ str ''* c'')) =
     Inr ([8226] @ str '' a b<br/>'' @ [8226] @ str '' c'')"
    by (simp add: formatGeminiResponse_def replaceNewlines_def removeAsterisks_def
        isLineTerminator_def str_def)
  from formatGeminiResponse_total_no_asterisk
  obtain out where "formatGeminiResponse (JStr (str ''* a *b*'' @ [10] @ str ''* c'')) = Inr out"
    and "42 \<notin> set out"
    by blast
  with e show ?thesis by simp
qed

end
